theory Spec2Isabelle
  imports Complex_Main "HOL-Library.AList"
begin

section \<open>Python values\<close>

text \<open>
  A Python float is an IEEE double: a finite value (kept as the rational it denotes), an
  infinity or a NaN. The sign of zero is not kept: no modelled path observes it.
\<close>

datatype pyfloat = Finite rat | PosInf | NegInf | NaN

text \<open>
  What \<open>response.json()\<close> can return, and what a \<open>JSONField\<close> holds. A dict is an
  association list read with \<open>map_of\<close>. The storage engine is outside the code modelled
  here: it is taken to store every such value in a \<open>JSONField\<close>, but for None in a column
  that is not declared \<open>null=True\<close>, and to compare stored values by equality.
\<close>

datatype json =
    JNull
  | JBool bool
  | JInt int
  | JFloat pyfloat
  | JStr string
  | JList "json list"
  | JObj "(string \<times> json) list"

text \<open>The exceptions the modelled code can raise.\<close>

datatype request_exception = Timeout | ConnectionError | HTTPError nat | JSONDecodeError

datatype error =
    KeyError string
  | TypeError
  | ValueError
  | AttributeError
  | OverflowError
  | IntegrityError
  | MultipleObjectsReturned
  | RequestException request_exception

text \<open>Sequencing of statements that may raise: the first exception ends the computation.\<close>

definition bnd :: "error + 'a \<Rightarrow> ('a \<Rightarrow> error + 'b) \<Rightarrow> error + 'b" where
  "bnd m f = (case m of Inl e \<Rightarrow> Inl e | Inr v \<Rightarrow> f v)"

subsection \<open>Rounding to a double\<close>

fun bit_length :: "nat \<Rightarrow> nat" where
  "bit_length n = (if n = 0 then 0 else Suc (bit_length (n div 2)))"

declare bit_length.simps [simp del]

definition pow2 :: "int \<Rightarrow> rat" where
  "pow2 k = (if 0 \<le> k then 2 ^ nat k else 1 / 2 ^ nat (- k))"

text \<open>\<open>binary_exponent q\<close> is the \<open>e\<close> with \<open>2^e \<le> q < 2^(e+1)\<close>, for \<open>q > 0\<close>.\<close>

definition binary_exponent :: "rat \<Rightarrow> int" where
  "binary_exponent q =
     (let (a, b) = quotient_of q;
          e0 = int (bit_length (nat a)) - int (bit_length (nat b))
      in if q < pow2 e0 then e0 - 1 else e0)"

text \<open>Round half to even, on a non-negative rational.\<close>

definition round_half_even :: "rat \<Rightarrow> int" where
  "round_half_even q =
     (let f = \<lfloor>q\<rfloor>; r = q - of_int f
      in if r < 1 / 2 then f
         else if 1 / 2 < r then f + 1
         else if even f then f else f + 1)"

text \<open>
  The double nearest to a rational: 53 bits of precision, the smallest spacing
  \<open>2^-1074\<close>, overflow to an infinity from \<open>2^1024\<close> on.
\<close>

definition round_double :: "rat \<Rightarrow> pyfloat" where
  "round_double q =
     (if q = 0 then Finite 0
      else let m = \<bar>q\<bar>;
               p = max (binary_exponent m - 52) (- 1074);
               r = of_int (round_half_even (m / pow2 p)) * pow2 p
           in if pow2 1024 \<le> r then (if 0 < q then PosInf else NegInf)
              else Finite (if 0 < q then r else - r))"

text \<open>\<open>float(n)\<close> for an int raises OverflowError where the result would not be finite.\<close>

definition float_of_int :: "int \<Rightarrow> error + pyfloat" where
  "float_of_int n =
     (case round_double (of_int n) of
        Finite q \<Rightarrow> Inr (Finite q)
      | _ \<Rightarrow> Inl OverflowError)"

text \<open>The product of two floats.\<close>

fun fmul :: "pyfloat \<Rightarrow> pyfloat \<Rightarrow> pyfloat" where
  "fmul (Finite a) (Finite b) = round_double (a * b)"
| "fmul NaN _ = NaN"
| "fmul _ NaN = NaN"
| "fmul (Finite a) PosInf = (if a = 0 then NaN else if 0 < a then PosInf else NegInf)"
| "fmul (Finite a) NegInf = (if a = 0 then NaN else if 0 < a then NegInf else PosInf)"
| "fmul PosInf (Finite b) = (if b = 0 then NaN else if 0 < b then PosInf else NegInf)"
| "fmul NegInf (Finite b) = (if b = 0 then NaN else if 0 < b then NegInf else PosInf)"
| "fmul PosInf PosInf = PosInf"
| "fmul PosInf NegInf = NegInf"
| "fmul NegInf PosInf = NegInf"
| "fmul NegInf NegInf = PosInf"

subsection \<open>The environment\<close>

text \<open>
  The outcome of \<open>requests.get(url, timeout=10)\<close>: an exception of the
  \<open>requests.exceptions.RequestException\<close> family, or a response with its status code
  and its body as \<open>response.json()\<close> reads it (\<open>None\<close> where the body is not JSON).
\<close>

record response =
  status_code :: nat
  body :: "json option"

datatype http_outcome = Raised request_exception | Returned response

text \<open>
  What the code takes from outside the repository: the \<open>n\<close>-th value of
  \<open>uuid.uuid4()\<close> as a string, the \<open>n\<close>-th reading of \<open>now().isoformat()\<close>,
  \<open>str()\<close> of a JSON value (used by the f-string of the user name), \<open>float()\<close>
  of a string, \<open>str()\<close> of a Decimal, and the answer of the network to the \<open>n\<close>-th
  request.
\<close>

record env =
  uuid4 :: "nat \<Rightarrow> string"
  now_iso :: "nat \<Rightarrow> string"
  py_str :: "json \<Rightarrow> string"
  float_of_str :: "string \<Rightarrow> error + pyfloat"
  str_decimal :: "rat \<Rightarrow> string"
  http_get :: "nat \<Rightarrow> string \<Rightarrow> http_outcome"

text \<open>How many values have been drawn from each of the two sources so far.\<close>

record counters =
  uuid_calls :: nat
  now_calls :: nat

subsection \<open>Built-in operations\<close>

text \<open>\<open>item[key]\<close> with a string key.\<close>

fun py_getitem :: "json \<Rightarrow> string \<Rightarrow> error + json" where
  "py_getitem (JObj kvs) k =
     (case map_of kvs k of None \<Rightarrow> Inl (KeyError k) | Some v \<Rightarrow> Inr v)"
| "py_getitem _ k = Inl TypeError"

text \<open>\<open>item.get(key, default)\<close>: only a dict has the method.\<close>

fun py_get :: "json \<Rightarrow> string \<Rightarrow> json \<Rightarrow> error + json" where
  "py_get (JObj kvs) k d = Inr (case map_of kvs k of None \<Rightarrow> d | Some v \<Rightarrow> v)"
| "py_get _ k d = Inl AttributeError"

text \<open>\<open>for item in x\<close>: a list gives its elements, a dict its keys, a string its characters.\<close>

fun py_iter :: "json \<Rightarrow> error + json list" where
  "py_iter (JList xs) = Inr xs"
| "py_iter (JObj kvs) = Inr (map (\<lambda>kv. JStr (fst kv)) kvs)"
| "py_iter (JStr s) = Inr (map (\<lambda>c. JStr [c]) s)"
| "py_iter _ = Inl TypeError"

text \<open>\<open>float(x)\<close>.\<close>

fun py_float :: "'a env_scheme \<Rightarrow> json \<Rightarrow> error + pyfloat" where
  "py_float ev (JInt n) = float_of_int n"
| "py_float ev (JFloat f) = Inr f"
| "py_float ev (JBool b) = Inr (Finite (if b then 1 else 0))"
| "py_float ev (JStr s) = float_of_str ev s"
| "py_float ev _ = Inl TypeError"

text \<open>The truth value of \<open>x\<close> in \<open>if x\<close>.\<close>

fun truthy :: "json \<Rightarrow> bool" where
  "truthy JNull = False"
| "truthy (JBool b) = b"
| "truthy (JInt n) = (n \<noteq> 0)"
| "truthy (JFloat f) = (f \<noteq> Finite 0)"
| "truthy (JStr s) = (s \<noteq> [])"
| "truthy (JList xs) = (xs \<noteq> [])"
| "truthy (JObj kvs) = (kvs \<noteq> [])"

section \<open>The Unified Record\<close>

text \<open>
  The fields of \<open>UnifiedEntity\<close> that the code sets; the dicts built by
  \<open>transform_data\<close> have the same keys and are passed to \<open>create(**item)\<close>.
\<close>

record unified_entity =
  entity_id :: string
  entity_type :: string
  timestamp :: string
  data :: "(string \<times> json) list"
  metadata :: "(string \<times> json) list"

section \<open>transform_data\<close>

text \<open>The body of the loop over a products payload.\<close>

definition product_record ::
  "'a env_scheme \<Rightarrow> counters \<Rightarrow> json \<Rightarrow> error + (unified_entity \<times> counters)" where
  "product_record ev c item =
     bnd (py_getitem item ''id'') (\<lambda>v_id.
     bnd (py_getitem item ''title'') (\<lambda>v_title.
     bnd (py_getitem item ''price'') (\<lambda>v_price.
     bnd (py_getitem item ''category'') (\<lambda>v_category.
     bnd (py_getitem item ''description'') (\<lambda>v_description.
     bnd (py_getitem item ''image'') (\<lambda>v_image.
       Inr (\<lparr>entity_id = uuid4 ev (uuid_calls c),
             entity_type = ''product'',
             timestamp = now_iso ev (now_calls c),
             data = [(''external_id'', v_id), (''title'', v_title), (''price'', v_price),
                     (''category'', v_category), (''description'', v_description),
                     (''image_url'', v_image)],
             metadata = [(''source'', JStr ''FakeStoreAPI''),
                         (''processed_at'', JStr (now_iso ev (now_calls c + 1)))]\<rparr>,
            \<lparr>uuid_calls = uuid_calls c + 1, now_calls = now_calls c + 2\<rparr>)))))))"

text \<open>The body of the loop over the \<open>results\<close> of a users payload.\<close>

definition user_record ::
  "'a env_scheme \<Rightarrow> counters \<Rightarrow> json \<Rightarrow> error + (unified_entity \<times> counters)" where
  "user_record ev c item =
     bnd (bnd (py_getitem item ''login'') (\<lambda>l. py_getitem l ''uuid'')) (\<lambda>v_uuid.
     bnd (bnd (py_getitem item ''name'') (\<lambda>n. py_getitem n ''first'')) (\<lambda>v_first.
     bnd (bnd (py_getitem item ''name'') (\<lambda>n. py_getitem n ''last'')) (\<lambda>v_last.
     bnd (py_getitem item ''email'') (\<lambda>v_email.
     bnd (py_get item ''phone'' JNull) (\<lambda>v_phone.
     bnd (bnd (py_getitem item ''location'') (\<lambda>l. py_getitem l ''country'')) (\<lambda>v_country.
     bnd (bnd (py_getitem item ''registered'') (\<lambda>r. py_getitem r ''date'')) (\<lambda>v_date.
       Inr (\<lparr>entity_id = uuid4 ev (uuid_calls c),
             entity_type = ''user'',
             timestamp = now_iso ev (now_calls c),
             data = [(''external_id'', v_uuid),
                     (''name'', JStr (py_str ev v_first @ '' '' @ py_str ev v_last)),
                     (''email'', v_email), (''phone'', v_phone), (''country'', v_country),
                     (''registered_date'', v_date)],
             metadata = [(''source'', JStr ''RandomUserAPI''),
                         (''processed_at'', JStr (now_iso ev (now_calls c + 1)))]\<rparr>,
            \<lparr>uuid_calls = uuid_calls c + 1, now_calls = now_calls c + 2\<rparr>))))))))"

text \<open>
  The body of the loop over a transactions payload. The amount is computed first, from
  \<open>item.get("id", 1)\<close>; the record then reads \<open>item["id"]\<close>.
\<close>

definition simulated_amount :: "'a env_scheme \<Rightarrow> json \<Rightarrow> error + pyfloat" where
  "simulated_amount ev item =
     bnd (py_get item ''id'' (JInt 1)) (\<lambda>v.
     bnd (py_float ev v) (\<lambda>f. Inr (fmul f (Finite 10))))"

definition transaction_record ::
  "'a env_scheme \<Rightarrow> counters \<Rightarrow> json \<Rightarrow> error + (unified_entity \<times> counters)" where
  "transaction_record ev c item =
     bnd (simulated_amount ev item) (\<lambda>amount.
     bnd (py_getitem item ''id'') (\<lambda>v_id.
     bnd (py_getitem item ''status'') (\<lambda>v_status.
     bnd (py_getitem item ''eta'') (\<lambda>v_eta.
     bnd (py_getitem item ''user_name'') (\<lambda>v_user_name.
     bnd (py_getitem item ''user_phone'') (\<lambda>v_user_phone.
     bnd (py_get item ''parcel_id'' JNull) (\<lambda>v_parcel.
       Inr (\<lparr>entity_id = uuid4 ev (uuid_calls c),
             entity_type = ''transaction'',
             timestamp = now_iso ev (now_calls c),
             data = [(''external_id'', v_id), (''status'', v_status), (''eta'', v_eta),
                     (''user_name'', v_user_name), (''user_phone'', v_user_phone),
                     (''amount'', JFloat amount), (''parcel_id'', v_parcel)],
             metadata = [(''source'', JStr ''MockarooAPI''),
                         (''processed_at'', JStr (now_iso ev (now_calls c + 1)))]\<rparr>,
            \<lparr>uuid_calls = uuid_calls c + 1, now_calls = now_calls c + 2\<rparr>))))))))"

text \<open>
  The \<open>for\<close> loop: the records are appended in the order of the items, and an exception
  raised for one item leaves the function, so that nothing is returned.
\<close>

fun transform_items ::
  "(counters \<Rightarrow> json \<Rightarrow> error + (unified_entity \<times> counters)) \<Rightarrow> counters \<Rightarrow> json list
     \<Rightarrow> error + (unified_entity list \<times> counters)" where
  "transform_items f c [] = Inr ([], c)"
| "transform_items f c (item # items) =
     bnd (f c item) (\<lambda>(r, c').
     bnd (transform_items f c' items) (\<lambda>(rs, c''). Inr (r # rs, c'')))"

definition transform_data ::
  "'a env_scheme \<Rightarrow> counters \<Rightarrow> string \<Rightarrow> json \<Rightarrow> error + (unified_entity list \<times> counters)" where
  "transform_data ev c api_name raw_data =
     (if api_name = ''products'' then
        bnd (py_iter raw_data) (transform_items (product_record ev) c)
      else if api_name = ''users'' then
        bnd (py_get raw_data ''results'' (JList [])) (\<lambda>results.
        bnd (py_iter results) (transform_items (user_record ev) c))
      else if api_name = ''transactions'' then
        bnd (py_iter raw_data) (transform_items (transaction_record ev) c)
      else Inr ([], c))"

section \<open>store_transformed_data\<close>

text \<open>The rows of the \<open>UnifiedEntity\<close> table, in the order of their insertion.\<close>

type_synonym db = "unified_entity list"

text \<open>
  \<open>UnifiedEntity.objects.filter(data__external_id=ext_id).exists()\<close>: some row has the
  key \<open>external_id\<close> in its \<open>data\<close>, with a value equal to \<open>ext_id\<close>. The comparison
  made by the database is taken to be equality of JSON values.
\<close>

definition ext_id_exists :: "db \<Rightarrow> json \<Rightarrow> bool" where
  "ext_id_exists rows ext_id =
     (Some ext_id \<in> set (map (\<lambda>r. map_of (data r) ''external_id'') rows))"

text \<open>
  \<open>UnifiedEntity.objects.create(**item)\<close>: \<open>entity_id\<close> is declared \<open>unique=True\<close>,
  so the insertion of a second row with the same \<open>entity_id\<close> raises IntegrityError.
\<close>

definition create :: "unified_entity \<Rightarrow> db \<Rightarrow> error + db" where
  "create item rows =
     (if entity_id item \<in> set (map entity_id rows) then Inl IntegrityError
      else Inr (rows @ [item]))"

text \<open>\<open>item["data"].get("external_id")\<close>: None where the key is absent.\<close>

definition get_external_id :: "unified_entity \<Rightarrow> json" where
  "get_external_id item =
     (case map_of (data item) ''external_id'' of None \<Rightarrow> JNull | Some v \<Rightarrow> v)"

text \<open>
  The loop of \<open>store_transformed_data\<close>. It returns the table it leaves behind, and the
  exception that ended it, if one did: the rows created before stay.
\<close>

fun store_transformed_data :: "unified_entity list \<Rightarrow> db \<Rightarrow> error option \<times> db" where
  "store_transformed_data [] rows = (None, rows)"
| "store_transformed_data (item # items) rows =
     (let ext_id = get_external_id item in
      if truthy ext_id \<and> \<not> ext_id_exists rows ext_id then
        (case create item rows of
           Inl e \<Rightarrow> (Some e, rows)
         | Inr rows' \<Rightarrow> store_transformed_data items rows')
      else store_transformed_data items rows)"

text \<open>The external identities carried by the rows of the table.\<close>

definition identities :: "db \<Rightarrow> json list" where
  "identities rows =
     concat (map (\<lambda>r. case map_of (data r) ''external_id'' of None \<Rightarrow> [] | Some x \<Rightarrow> [x]) rows)"

section \<open>fetch_data_from_api\<close>

definition API_ENDPOINTS :: "(string \<times> string) list" where
  "API_ENDPOINTS =
     [(''products'', ''https://fakestoreapi.com/products''),
      (''users'', ''https://randomuser.me/api/?results=20''),
      (''transactions'', ''https://my.api.mockaroo.com/orders.json?key=e49e6840'')]"

text \<open>A row of the \<open>APIDataCache\<close> table.\<close>

record cache_row =
  endpoint :: string
  response_data :: json
  fetched_at :: string

text \<open>
  The state the pipeline works on: the values drawn so far, the URLs requested so far, the
  \<open>APIDataCache\<close> table and the \<open>UnifiedEntity\<close> table.
\<close>

record world =
  ctr :: counters
  requests :: "string list"
  cache :: "cache_row list"
  entities :: db

text \<open>\<open>response.raise_for_status()\<close>: HTTPError for a status from 400 to 599.\<close>

definition raise_for_status :: "response \<Rightarrow> error + unit" where
  "raise_for_status r =
     (if 400 \<le> status_code r \<and> status_code r < 600
      then Inl (RequestException (HTTPError (status_code r))) else Inr ())"

text \<open>
  \<open>response.json()\<close>: \<open>requests.exceptions.JSONDecodeError\<close>, a RequestException,
  where the body is not JSON.
\<close>

definition response_json :: "response \<Rightarrow> error + json" where
  "response_json r =
     (case body r of None \<Rightarrow> Inl (RequestException JSONDecodeError) | Some d \<Rightarrow> Inr d)"

text \<open>
  \<open>APIDataCache.objects.update_or_create(endpoint=url, defaults=...)\<close>: the row with this
  endpoint is updated, or one is created; \<open>endpoint\<close> is not declared unique, and the
  lookup raises MultipleObjectsReturned where several rows have it. \<open>response_data\<close> is a
  \<open>JSONField()\<close> without \<open>null=True\<close>: the value None is written as SQL NULL, and
  saving the row, new or old, raises IntegrityError. \<open>now()\<close> is read for the defaults,
  and once more when the row is saved (\<open>auto_now=True\<close>).
\<close>

definition update_or_create ::
  "'a env_scheme \<Rightarrow> counters \<Rightarrow> string \<Rightarrow> json \<Rightarrow> cache_row list
     \<Rightarrow> error + (cache_row list \<times> counters)" where
  "update_or_create ev c url d rows =
     (let row = \<lparr>endpoint = url, response_data = d,
                  fetched_at = now_iso ev (now_calls c + 1)\<rparr>;
          c' = c\<lparr>now_calls := now_calls c + 2\<rparr>
      in case filter (\<lambda>r. endpoint r = url) rows of
           [] \<Rightarrow>
             if d = JNull then Inl IntegrityError else Inr (rows @ [row], c')
         | [_] \<Rightarrow>
             if d = JNull then Inl IntegrityError
             else Inr (map (\<lambda>r. if endpoint r = url then row else r) rows, c')
         | _ \<Rightarrow> Inl MultipleObjectsReturned)"

text \<open>The body of the \<open>try\<close>.\<close>

definition fetch_try :: "'a env_scheme \<Rightarrow> world \<Rightarrow> string \<Rightarrow> (error + json) \<times> world" where
  "fetch_try ev w url =
     (let w1 = w\<lparr>requests := requests w @ [url]\<rparr> in
      case http_get ev (length (requests w)) url of
        Raised e \<Rightarrow> (Inl (RequestException e), w1)
      | Returned r \<Rightarrow>
          (case raise_for_status r of
             Inl e \<Rightarrow> (Inl e, w1)
           | Inr _ \<Rightarrow>
               (case response_json r of
                  Inl e \<Rightarrow> (Inl e, w1)
                | Inr d \<Rightarrow>
                    (case update_or_create ev (ctr w1) url d (cache w1) of
                       Inl e \<Rightarrow> (Inl e, w1)
                     | Inr (cache', c') \<Rightarrow>
                         (Inr (if truthy d then d else JList []),
                          w1\<lparr>ctr := c', cache := cache'\<rparr>)))))"

text \<open>
  \<open>fetch_data_from_api\<close>: the handler catches \<open>RequestException\<close> and nothing else.
\<close>

definition fetch_data_from_api ::
  "'a env_scheme \<Rightarrow> world \<Rightarrow> string \<Rightarrow> (error + json) \<times> world" where
  "fetch_data_from_api ev w api_name =
     (case map_of API_ENDPOINTS api_name of
        None \<Rightarrow> (Inr (JList []), w)
      | Some url \<Rightarrow>
          if url = [] then (Inr (JList []), w)
          else (case fetch_try ev w url of
                  (Inl (RequestException e), w') \<Rightarrow> (Inr (JList []), w')
                | res \<Rightarrow> res))"

section \<open>The tasks\<close>

text \<open>
  \<open>fetch_and_store_data\<close>. An exception of \<open>transform_data\<close> or of
  \<open>store_transformed_data\<close> is not caught; after one of \<open>transform_data\<close> the
  values drawn for the discarded records are not counted.
\<close>

definition fetch_and_store_data ::
  "'a env_scheme \<Rightarrow> world \<Rightarrow> string \<Rightarrow> (error + string) \<times> world" where
  "fetch_and_store_data ev w api_name =
     (case fetch_data_from_api ev w api_name of
        (Inl e, w1) \<Rightarrow> (Inl e, w1)
      | (Inr raw_data, w1) \<Rightarrow>
          if \<not> truthy raw_data then (Inr (''Failed to fetch data from '' @ api_name), w1)
          else (case transform_data ev (ctr w1) api_name raw_data of
                  Inl e \<Rightarrow> (Inl e, w1)
                | Inr (transformed, c') \<Rightarrow>
                    (case store_transformed_data transformed (entities w1) of
                       (Some e, rows) \<Rightarrow> (Inl e, w1\<lparr>ctr := c', entities := rows\<rparr>)
                     | (None, rows) \<Rightarrow>
                         (Inr (''Processed data from '' @ api_name),
                          w1\<lparr>ctr := c', entities := rows\<rparr>))))"

text \<open>The loop of \<open>fetch_all_data\<close>, with \<open>results\<close> as it stands.\<close>

fun fetch_all_loop ::
  "'a env_scheme \<Rightarrow> string list \<Rightarrow> (string \<times> string) list \<Rightarrow> world
     \<Rightarrow> (error + (string \<times> string) list) \<times> world" where
  "fetch_all_loop ev [] results w = (Inr results, w)"
| "fetch_all_loop ev (api_name # rest) results w =
     (case fetch_and_store_data ev w api_name of
        (Inl e, w') \<Rightarrow> (Inl e, w')
      | (Inr result, w') \<Rightarrow> fetch_all_loop ev rest (AList.update api_name result results) w')"

definition fetch_all_data ::
  "'a env_scheme \<Rightarrow> world \<Rightarrow> (error + (string \<times> string) list) \<times> world" where
  "fetch_all_data ev w = fetch_all_loop ev [''products'', ''users'', ''transactions''] [] w"

section \<open>The relational entities\<close>

text \<open>
  The rows of \<open>Category\<close>, \<open>UserProfile\<close>, \<open>Product\<close> and \<open>Transaction\<close>, as the
  ORM hands them over: a foreign key is the row it points to, a nullable one an option. A
  UUID and a datetime are kept as their strings, a Decimal as the rational it denotes.
\<close>

record category =
  c_pk :: string
  c_name :: string

record user_profile =
  u_pk :: string
  u_external_id :: string
  u_name :: string
  u_email :: string
  u_phone :: "string option"
  u_country :: string
  u_registered_date :: string

record product =
  p_pk :: string
  p_external_id :: int
  p_title :: string
  p_price :: rat
  p_category :: "category option"
  p_description :: string
  p_image_url :: string

record transaction_row =
  t_pk :: string
  t_external_id :: string
  t_user :: user_profile
  t_product :: product
  t_amount :: rat
  t_timestamp :: string

section \<open>enrich_transactions\<close>

text \<open>The dict \<open>enriched_data\<close> built for one transaction.\<close>

definition enriched_data :: "'a env_scheme \<Rightarrow> transaction_row \<Rightarrow> (string \<times> json) list" where
  "enriched_data ev txn =
     [(''transaction_id'', JStr (t_external_id txn)),
      (''amount'', JStr (str_decimal ev (t_amount txn))),
      (''timestamp'', JStr (t_timestamp txn)),
      (''user'', JObj
         [(''external_id'', JStr (u_external_id (t_user txn))),
          (''name'', JStr (u_name (t_user txn))),
          (''email'', JStr (u_email (t_user txn))),
          (''phone'', (case u_phone (t_user txn) of None \<Rightarrow> JNull | Some ph \<Rightarrow> JStr ph)),
          (''country'', JStr (u_country (t_user txn))),
          (''registered_date'', JStr (u_registered_date (t_user txn)))]),
      (''product'', JObj
         [(''external_id'', JInt (p_external_id (t_product txn))),
          (''title'', JStr (p_title (t_product txn))),
          (''price'', JStr (str_decimal ev (p_price (t_product txn)))),
          (''description'', JStr (p_description (t_product txn))),
          (''category'',
             (case p_category (t_product txn) of None \<Rightarrow> JNull | Some cat \<Rightarrow> JStr (c_name cat))),
          (''image_url'', JStr (p_image_url (t_product txn)))])]"

text \<open>
  The loop over the transactions, with \<open>enriched_count\<close> as it stands. An IntegrityError
  of \<open>create\<close> is not caught.
\<close>

fun enrich_loop ::
  "'a env_scheme \<Rightarrow> transaction_row list \<Rightarrow> nat \<Rightarrow> world \<Rightarrow> (error + nat) \<times> world" where
  "enrich_loop ev [] enriched_count w = (Inr enriched_count, w)"
| "enrich_loop ev (txn # rest) enriched_count w =
     (let item = \<lparr>entity_id = uuid4 ev (uuid_calls (ctr w)),
                   entity_type = ''transaction'',
                   timestamp = t_timestamp txn,
                   data = enriched_data ev txn,
                   metadata = [(''source'', JStr ''Enriched Data''),
                               (''processed_at'', JStr (now_iso ev (now_calls (ctr w))))]\<rparr>;
          c' = \<lparr>uuid_calls = uuid_calls (ctr w) + 1, now_calls = now_calls (ctr w) + 1\<rparr>
      in case create item (entities w) of
           Inl e \<Rightarrow> (Inl e, w\<lparr>ctr := c'\<rparr>)
         | Inr rows \<Rightarrow> enrich_loop ev rest (enriched_count + 1) (w\<lparr>ctr := c', entities := rows\<rparr>))"

text \<open>
  \<open>enrich_transactions\<close>: the rows of type transaction are deleted, then one row is
  created for each row of the \<open>Transaction\<close> table.
\<close>

definition enrich_transactions ::
  "'a env_scheme \<Rightarrow> world \<Rightarrow> transaction_row list \<Rightarrow> (error + nat) \<times> world" where
  "enrich_transactions ev w transactions =
     enrich_loop ev transactions 0
       (w\<lparr>entities := filter (\<lambda>r. entity_type r \<noteq> ''transaction'') (entities w)\<rparr>)"

section \<open>The insight views\<close>

text \<open>The aggregates \<open>Sum\<close> and \<open>Avg\<close> of the ORM: None over no row.\<close>

definition Sum :: "rat list \<Rightarrow> rat option" where
  "Sum xs = (if xs = [] then None else Some (sum_list xs))"

definition Avg :: "rat list \<Rightarrow> rat option" where
  "Avg xs = (if xs = [] then None else Some (sum_list xs / of_nat (length xs)))"

text \<open>One dict of \<open>.values('external_id', 'name', 'email', 'total_spent')\<close>.\<close>

record user_values =
  external_id :: string
  name :: string
  email :: string
  total_spent :: "rat option"

text \<open>
  \<open>UserInsightsView.get\<close>: every user, annotated with the \<open>Sum\<close> of the amounts of
  the transactions that point to it.
\<close>

definition user_insights :: "user_profile list \<Rightarrow> transaction_row list \<Rightarrow> user_values list" where
  "user_insights users transactions =
     map (\<lambda>u. \<lparr>external_id = u_external_id u, name = u_name u, email = u_email u,
                total_spent =
                  Sum (map t_amount (filter (\<lambda>t. u_pk (t_user t) = u_pk u) transactions))\<rparr>)
         users"

text \<open>The dict \<open>insights\<close> of \<open>ProductInsightsView.get\<close>.\<close>

record insights =
  product_categories :: "(string \<times> nat) list"
  average_transaction_value :: rat

text \<open>
  \<open>ProductInsightsView.get\<close>: every category with the count of the transactions whose
  product belongs to it, and \<open>avg_transaction.get("average_value") or 0\<close>.
\<close>

definition product_insights :: "category list \<Rightarrow> transaction_row list \<Rightarrow> insights" where
  "product_insights categories transactions =
     \<lparr>product_categories =
        map (\<lambda>c. (c_name c,
                   length (filter (\<lambda>t. case p_category (t_product t) of
                                           None \<Rightarrow> False
                                         | Some c' \<Rightarrow> c_pk c' = c_pk c) transactions)))
            categories,
      average_transaction_value =
        (case Avg (map t_amount transactions) of
           None \<Rightarrow> 0
         | Some a \<Rightarrow> if a \<noteq> 0 then a else 0)\<rparr>"

section \<open>Notions used to state the properties\<close>

text \<open>What one pass of a loop body of \<open>transform_data\<close> draws: one UUID, two readings of the clock.\<close>

definition step :: "counters \<Rightarrow> counters" where
  "step c = \<lparr>uuid_calls = uuid_calls c + 1, now_calls = now_calls c + 2\<rparr>"


definition payload_items :: "string \<Rightarrow> json \<Rightarrow> error + json list" where
  "payload_items api_name raw_data =
     (if api_name = ''users'' then bnd (py_get raw_data ''results'' (JList [])) py_iter
      else py_iter raw_data)"

definition record_of :: "'a env_scheme \<Rightarrow> string \<Rightarrow> counters \<Rightarrow> json \<Rightarrow> error + (unified_entity \<times> counters)" where
  "record_of ev api_name =
     (if api_name = ''products'' then product_record ev
      else if api_name = ''users'' then user_record ev
      else transaction_record ev)"

definition recognized :: "string \<Rightarrow> bool" where
  "recognized api_name = (api_name \<in> set [''products'', ''users'', ''transactions''])"

fun has_path :: "json \<Rightarrow> string list \<Rightarrow> bool" where
  "has_path j [] = True"
| "has_path (JObj kvs) (k # ks) = (case map_of kvs k of None \<Rightarrow> False | Some v \<Rightarrow> has_path v ks)"
| "has_path _ (k # ks) = False"

definition required_fields :: "string \<Rightarrow> string list list" where
  "required_fields api_name =
     (if api_name = ''products'' then
        [[''id''], [''title''], [''price''], [''category''], [''description''], [''image'']]
      else if api_name = ''users'' then
        [[''login'', ''uuid''], [''name'', ''first''], [''name'', ''last''], [''email''],
         [''location'', ''country''], [''registered'', ''date'']]
      else if api_name = ''transactions'' then
        [[''id''], [''status''], [''eta''], [''user_name''], [''user_phone'']]
      else [])"

definition missing_required :: "string \<Rightarrow> json \<Rightarrow> bool" where
  "missing_required api_name item = (\<not> list_all (has_path item) (required_fields api_name))"

text \<open>
  The UUIDs drawn from the \<open>n\<close>-th on are not the \<open>entity_id\<close> of a row of the table.
\<close>

definition fresh_from :: "'a env_scheme \<Rightarrow> nat \<Rightarrow> db \<Rightarrow> bool" where
  "fresh_from ev n rows = (\<forall>k\<ge>n. uuid4 ev k \<notin> set (map entity_id rows))"

text \<open>A record with the key \<open>external_id\<close> taken out of its payload.\<close>

definition without_identity :: "unified_entity \<Rightarrow> unified_entity" where
  "without_identity item = item\<lparr>data := filter (\<lambda>kv. fst kv \<noteq> ''external_id'') (data item)\<rparr>"

section \<open>Concrete inputs\<close>

text \<open>
  An environment in which the \<open>n\<close>-th UUID is \<open>n + 1\<close> letters \<open>u\<close> and the \<open>n\<close>-th
  reading of the clock \<open>n + 1\<close> letters \<open>t\<close>; every request times out.
\<close>

definition ev0 :: env where
  "ev0 = \<lparr>uuid4 = (\<lambda>n. replicate (Suc n) CHR ''u''),
           now_iso = (\<lambda>n. replicate (Suc n) CHR ''t''),
           py_str = (\<lambda>j. case j of JStr s \<Rightarrow> s | _ \<Rightarrow> ''?''),
           float_of_str = (\<lambda>s. Inl ValueError),
           str_decimal = (\<lambda>q. if q = 10 then ''10.00'' else if q = 20 then ''20.00'' else ''?''),
           http_get = (\<lambda>n url. Raised Timeout)\<rparr>"

definition c0 :: counters where
  "c0 = \<lparr>uuid_calls = 0, now_calls = 0\<rparr>"

text \<open>The products payload of Scenario A; the price is the double written \<open>9.99\<close>.\<close>

definition scenario_A :: json where
  "scenario_A =
     JList [JObj [(''id'', JInt 1), (''title'', JStr ''Shirt''),
                  (''price'', JFloat (Finite (5623870034678907 / 562949953421312))),
                  (''category'', JStr ''clothing''), (''description'', JStr ''''),
                  (''image'', JStr ''http://x/y.png'')]]"

text \<open>The record that \<open>transform_data\<close> makes of it in \<open>ev0\<close>, from \<open>c0\<close>.\<close>

definition shirt :: unified_entity where
  "shirt =
     \<lparr>entity_id = ''u'', entity_type = ''product'', timestamp = ''t'',
      data = [(''external_id'', JInt 1), (''title'', JStr ''Shirt''),
              (''price'', JFloat (Finite (5623870034678907 / 562949953421312))),
              (''category'', JStr ''clothing''), (''description'', JStr ''''),
              (''image_url'', JStr ''http://x/y.png'')],
      metadata = [(''source'', JStr ''FakeStoreAPI''), (''processed_at'', JStr ''tt'')]\<rparr>"

text \<open>The transactions payload of Scenario B.\<close>

definition scenario_B :: json where
  "scenario_B =
     JList [JObj [(''id'', JInt 5), (''status'', JStr ''placed''), (''eta'', JStr ''...''),
                  (''user_name'', JStr ''A''), (''user_phone'', JStr ''1''),
                  (''parcel_id'', JStr ''p1'')]]"

text \<open>A product whose identity is the integer 0, and the same record without an identity.\<close>

definition zero_id_record :: unified_entity where
  "zero_id_record =
     \<lparr>entity_id = ''u'', entity_type = ''product'', timestamp = ''t'',
      data = [(''external_id'', JInt 0), (''title'', JStr ''Shirt'')],
      metadata = []\<rparr>"

text \<open>A products payload whose second item has no \<open>title\<close>.\<close>

definition missing_title :: json where
  "missing_title =
     JList [JObj [(''id'', JInt 1), (''title'', JStr ''Shirt''), (''price'', JInt 9),
                  (''category'', JStr ''clothing''), (''description'', JStr ''''),
                  (''image'', JStr ''http://x/y.png'')],
            JObj [(''id'', JInt 2), (''price'', JInt 5),
                  (''category'', JStr ''clothing''), (''description'', JStr ''''),
                  (''image'', JStr ''http://x/z.png'')]]"

text \<open>The state before anything has run: nothing drawn, requested, cached or stored.\<close>

definition w0 :: world where
  "w0 = \<lparr>ctr = c0, requests = [], cache = [], entities = []\<rparr>"



definition ev_null :: env where
  "ev_null = ev0\<lparr>http_get := (\<lambda>n url. Returned \<lparr>status_code = 200, body = Some JNull\<rparr>)\<rparr>"

text \<open>
  An environment in which the products source answers with the payload of Scenario A and the
  other requests time out.
\<close>

definition ev_A :: env where
  "ev_A = ev0\<lparr>http_get := (\<lambda>n url.
             if url = ''https://fakestoreapi.com/products''
             then Returned \<lparr>status_code = 200, body = Some scenario_A\<rparr>
             else Raised Timeout)\<rparr>"

text \<open>
  An environment in which every request is answered with the status 200 and the payload
  \<open>missing_title\<close>.
\<close>

definition ev_bad :: env where
  "ev_bad = ev0\<lparr>http_get := (\<lambda>n url. Returned \<lparr>status_code = 200, body = Some missing_title\<rparr>)\<rparr>"

text \<open>A user, a category, a product, and two transactions of amounts 10 and 20 (Scenario D).\<close>

definition ann :: user_profile where
  "ann = \<lparr>u_pk = ''pk-ann'', u_external_id = ''ext-ann'', u_name = ''Ann'',
           u_email = ''ann@example.org'', u_phone = None, u_country = ''NL'',
           u_registered_date = ''2024-01-01T00:00:00+00:00''\<rparr>"

definition clothing :: category where
  "clothing = \<lparr>c_pk = ''pk-clothing'', c_name = ''clothing''\<rparr>"

definition shirt_product :: product where
  "shirt_product = \<lparr>p_pk = ''pk-shirt'', p_external_id = 1, p_title = ''Shirt'', p_price = 10,
                     p_category = Some clothing, p_description = '''',
                     p_image_url = ''http://x/y.png''\<rparr>"

definition txn_10 :: transaction_row where
  "txn_10 = \<lparr>t_pk = ''pk-t1'', t_external_id = ''ext-t1'', t_user = ann,
              t_product = shirt_product, t_amount = 10,
              t_timestamp = ''2024-02-01T00:00:00+00:00''\<rparr>"

definition txn_20 :: transaction_row where
  "txn_20 = \<lparr>t_pk = ''pk-t2'', t_external_id = ''ext-t2'', t_user = ann,
              t_product = shirt_product, t_amount = 20,
              t_timestamp = ''2024-02-02T00:00:00+00:00''\<rparr>"

text \<open>A row of type transaction left by an earlier enrichment.\<close>

definition old_enriched :: unified_entity where
  "old_enriched =
     \<lparr>entity_id = ''old'', entity_type = ''transaction'', timestamp = ''2024-01-15T00:00:00+00:00'',
      data = [(''transaction_id'', JStr ''ext-t0'')],
      metadata = [(''source'', JStr ''Enriched Data'')]\<rparr>"

text \<open>A state with the product of Scenario A and that row in the table, one UUID drawn.\<close>

definition w_old :: world where
  "w_old = \<lparr>ctr = \<lparr>uuid_calls = 1, now_calls = 2\<rparr>, requests = [], cache = [],
            entities = [shirt, old_enriched]\<rparr>"




section \<open>Properties\<close>

lemma bnd_Inr_iff: "bnd m f = Inr y \<longleftrightarrow> (\<exists>v. m = Inr v \<and> f v = Inr y)"
  by (cases m) (auto simp: bnd_def)

lemma bnd_Inl: "bnd (Inl e) f = Inl e"
  by (simp add: bnd_def)

lemma bnd_Inr: "bnd (Inr v) f = f v"
  by (simp add: bnd_def)




lemma transform_data_items:
  "recognized api_name \<Longrightarrow>
   transform_data ev c api_name raw_data =
     bnd (payload_items api_name raw_data) (transform_items (record_of ev api_name) c)"
  by (auto simp: recognized_def transform_data_def payload_items_def record_of_def bnd_def
           split: sum.splits)



lemma transform_items_fails:
  "item \<in> set items \<Longrightarrow> (\<forall>c. \<exists>e. f c item = Inl e) \<Longrightarrow> \<exists>e. transform_items f c items = Inl e"
proof (induction items arbitrary: c)
  case Nil
  then show ?case by simp
next
  case (Cons x xs)
  show ?case
  proof (cases "f c x")
    case (Inl e)
    then show ?thesis by (simp add: bnd_def)
  next
    case (Inr p)
    obtain r c' where p: "p = (r, c')" by (cases p)
    have "x \<noteq> item" using Inr Cons.prems(2) by (metis sum.distinct(1))
    then have "item \<in> set xs" using Cons.prems(1) by simp
    then obtain e where "transform_items f c' xs = Inl e"
      using Cons.IH Cons.prems(2) by blast
    then show ?thesis using Inr p by (simp add: bnd_def)
  qed
qed

lemma getitem_Inr_has_path:
  "py_getitem item k = Inr v \<Longrightarrow> has_path item [k]"
  by (cases item) (auto split: option.splits)

lemma getitem2_Inr_has_path:
  "py_getitem item k = Inr v \<Longrightarrow> py_getitem v k' = Inr v' \<Longrightarrow> has_path item [k, k']"
  by (cases item; cases v) (auto split: option.splits)

lemma product_record_required:
  "product_record ev c item = Inr p \<Longrightarrow> \<not> missing_required ''products'' item"
  unfolding product_record_def missing_required_def required_fields_def
  by (auto simp: bnd_Inr_iff getitem_Inr_has_path simp del: has_path.simps)

lemma user_record_required:
  "user_record ev c item = Inr p \<Longrightarrow> \<not> missing_required ''users'' item"
  unfolding user_record_def missing_required_def required_fields_def
  by (auto simp: bnd_Inr_iff getitem_Inr_has_path getitem2_Inr_has_path simp del: has_path.simps)

lemma transaction_record_required:
  "transaction_record ev c item = Inr p \<Longrightarrow> \<not> missing_required ''transactions'' item"
  unfolding transaction_record_def missing_required_def required_fields_def
  by (auto simp: bnd_Inr_iff getitem_Inr_has_path simp del: has_path.simps)

lemma record_of_required:
  assumes "recognized api_name" and "missing_required api_name item"
  shows "\<exists>e. record_of ev api_name c item = Inl e"
proof (cases "record_of ev api_name c item")
  case (Inl e)
  then show ?thesis by blast
next
  case (Inr p)
  then have False
    using assms product_record_required [of ev c item p] user_record_required [of ev c item p]
      transaction_record_required [of ev c item p]
    by (auto simp: recognized_def record_of_def split: if_splits)
  then show ?thesis ..
qed

lemma transform_items_all2:
  "transform_items f c items = Inr (rs, c') \<Longrightarrow>
   list_all2 (\<lambda>item r. \<exists>ci ci'. f ci item = Inr (r, ci')) items rs"
proof (induction items arbitrary: c rs)
  case Nil
  then show ?case by simp
next
  case (Cons x xs)
  from Cons.prems obtain r c1 rs' where
    x: "f c x = Inr (r, c1)" and xs: "transform_items f c1 xs = Inr (rs', c')" and rs: "rs = r # rs'"
    by (auto simp: bnd_Inr_iff)
  show ?case using Cons.IH [OF xs] x rs by auto
qed

lemma round_double_5: "round_double 5 = Finite 5"
  by (simp add: round_double_def binary_exponent_def pow2_def round_half_even_def
        bit_length.simps quotient_of_int Let_def)

lemma round_double_50: "round_double 50 = Finite 50"
  by (simp add: round_double_def binary_exponent_def pow2_def round_half_even_def
        bit_length.simps quotient_of_int Let_def)

lemma float_of_int_5: "float_of_int 5 = Inr (Finite 5)"
  by (simp add: float_of_int_def round_double_5)

lemma fmul_5_10: "fmul (Finite 5) (Finite 10) = Finite 50"
  by (simp add: round_double_50)

lemma transaction_record_amount:
  assumes "transaction_record ev c item = Inr (r, c')"
  shows "\<exists>v f. py_getitem item ''id'' = Inr v \<and> py_float ev v = Inr f \<and>
           map_of (data r) ''amount'' = Some (JFloat (fmul f (Finite 10))) \<and>
           (v = JInt 5 \<longrightarrow> map_of (data r) ''amount'' = Some (JFloat (Finite 50)))"
proof -
  from assms obtain a v where a: "simulated_amount ev item = Inr a"
    and v: "py_getitem item ''id'' = Inr v"
    and r: "map_of (data r) ''amount'' = Some (JFloat a)"
    unfolding transaction_record_def by (auto simp: bnd_Inr_iff)
  from v obtain kvs where item: "item = JObj kvs" and kv: "map_of kvs ''id'' = Some v"
    by (cases item) (auto split: option.splits)
  from a item kv obtain f where f: "py_float ev v = Inr f" and af: "a = fmul f (Finite 10)"
    unfolding simulated_amount_def by (auto simp: bnd_Inr_iff)
  have five: "v = JInt 5 \<longrightarrow> a = Finite 50"
    using f af by (auto simp: float_of_int_5 fmul_5_10 simp del: fmul.simps)
  show ?thesis
  proof (intro exI conjI)
    show "py_getitem item ''id'' = Inr v" by (rule v)
    show "py_float ev v = Inr f" by (rule f)
    show "map_of (data r) ''amount'' = Some (JFloat (fmul f (Finite 10)))"
      using r af by simp
    show "v = JInt 5 \<longrightarrow> map_of (data r) ''amount'' = Some (JFloat (Finite 50))"
      using r five by simp
  qed
qed



lemma store_extends: "\<exists>ys. snd (store_transformed_data items rows) = rows @ ys"
proof (induction items arbitrary: rows)
  case Nil
  then show ?case by simp
next
  case (Cons item items)
  show ?case
  proof (cases "truthy (get_external_id item) \<and> \<not> ext_id_exists rows (get_external_id item)")
    case False
    then show ?thesis using Cons.IH [of rows] by auto
  next
    case True
    show ?thesis
    proof (cases "create item rows")
      case (Inl e)
      then show ?thesis using True by simp
    next
      case (Inr rows')
      then have "rows' = rows @ [item]" by (auto simp: create_def split: if_splits)
      moreover obtain ys where "snd (store_transformed_data items rows') = rows' @ ys"
        using Cons.IH [of rows'] by blast
      ultimately show ?thesis using True Inr by simp
    qed
  qed
qed

lemma ext_id_exists_append:
  "ext_id_exists (rows @ ys) x = (ext_id_exists rows x \<or> ext_id_exists ys x)"
  by (auto simp: ext_id_exists_def)

lemma ext_id_exists_after:
  "ext_id_exists rows x \<Longrightarrow> ext_id_exists (snd (store_transformed_data items rows)) x"
  using store_extends [of items rows] by (auto simp: ext_id_exists_append)

lemma truthy_get_external_id:
  "truthy (get_external_id item) \<Longrightarrow> map_of (data item) ''external_id'' = Some (get_external_id item)"
  by (auto simp: get_external_id_def split: option.splits)

lemma store_again:
  "store_transformed_data items (snd (store_transformed_data items rows))
     = store_transformed_data items rows"
proof (induction items arbitrary: rows)
  case Nil
  then show ?case by simp
next
  case (Cons item items)
  let ?x = "get_external_id item"
  show ?case
  proof (cases "truthy ?x \<and> \<not> ext_id_exists rows ?x")
    case False
    let ?rows' = "snd (store_transformed_data items rows)"
    have first: "store_transformed_data (item # items) rows = store_transformed_data items rows"
      using False by auto
    have "\<not> (truthy ?x \<and> \<not> ext_id_exists ?rows' ?x)"
      using False ext_id_exists_after [of rows ?x items] by blast
    then have "store_transformed_data (item # items) ?rows' = store_transformed_data items ?rows'"
      by auto
    then show ?thesis using first Cons.IH [of rows] by simp
  next
    case True
    show ?thesis
    proof (cases "create item rows")
      case (Inl e)
      then show ?thesis using True by simp
    next
      case (Inr rows')
      let ?rows'' = "snd (store_transformed_data items rows')"
      have first: "store_transformed_data (item # items) rows = store_transformed_data items rows'"
        using True Inr by simp
      have "rows' = rows @ [item]" using Inr by (auto simp: create_def split: if_splits)
      then have "ext_id_exists rows' ?x"
        using True truthy_get_external_id [of item] by (simp add: ext_id_exists_def)
      then have "ext_id_exists ?rows'' ?x" by (rule ext_id_exists_after)
      then have "store_transformed_data (item # items) ?rows'' = store_transformed_data items ?rows''"
        by simp
      then show ?thesis using first Cons.IH [of rows'] by simp
    qed
  qed
qed

lemma identities_append: "identities (rows @ ys) = identities rows @ identities ys"
  by (simp add: identities_def)

lemma ext_id_exists_identities: "ext_id_exists rows x = (x \<in> set (identities rows))"
  by (induction rows) (auto simp: ext_id_exists_def identities_def split: option.splits)

lemma store_distinct:
  "distinct (identities rows) \<Longrightarrow> distinct (identities (snd (store_transformed_data items rows)))"
proof (induction items arbitrary: rows)
  case Nil
  then show ?case by simp
next
  case (Cons item items)
  let ?x = "get_external_id item"
  show ?case
  proof (cases "truthy ?x \<and> \<not> ext_id_exists rows ?x")
    case False
    then show ?thesis using Cons by auto
  next
    case True
    show ?thesis
    proof (cases "create item rows")
      case (Inl e)
      then show ?thesis using True Cons.prems by simp
    next
      case (Inr rows')
      have "rows' = rows @ [item]" using Inr by (auto simp: create_def split: if_splits)
      moreover have "identities [item] = [?x]"
        using True truthy_get_external_id [of item] by (simp add: identities_def)
      ultimately have "distinct (identities rows')"
        using True Cons.prems by (simp add: identities_append ext_id_exists_identities)
      then show ?thesis using True Inr Cons.IH [of rows'] by simp
    qed
  qed
qed





lemma inj_uuid4_ev0: "inj (uuid4 ev0)"
proof (rule injI)
  fix m n assume "uuid4 ev0 m = uuid4 ev0 n"
  then have "length (replicate (Suc m) CHR ''u'') = length (replicate (Suc n) CHR ''u'')"
    by (simp add: ev0_def)
  then show "m = n" by simp
qed


lemma store_shirt: "store_transformed_data [shirt] [] = (None, [shirt])"
  by (simp add: get_external_id_def shirt_def ext_id_exists_def create_def)

lemma store_shirt_again: "store_transformed_data [shirt] [shirt] = (None, [shirt])"
  by (simp add: get_external_id_def shirt_def ext_id_exists_def create_def)

lemma map_of_filter_out: "map_of (filter (\<lambda>kv. fst kv \<noteq> k) kvs) k = None"
  by (induction kvs) auto





lemma fetch_try_entities: "entities (snd (fetch_try ev w url)) = entities w"
  by (simp add: fetch_try_def Let_def split: http_outcome.splits sum.splits prod.splits)

lemma fetch_entities:
  "entities (snd (fetch_data_from_api ev w api_name)) = entities w"
proof (cases "map_of API_ENDPOINTS api_name")
  case None
  then show ?thesis by (simp add: fetch_data_from_api_def)
next
  case (Some url)
  obtain res w' where t: "fetch_try ev w url = (res, w')" by (cases "fetch_try ev w url")
  then have "entities w' = entities w" using fetch_try_entities [of ev w url] by simp
  then show ?thesis using Some t
    by (simp add: fetch_data_from_api_def split: sum.splits error.splits)
qed

lemma run_products_ev_A:
  "fetch_and_store_data ev_A w0 ''products''
     = (Inr ''Processed data from products'',
        \<lparr>ctr = \<lparr>uuid_calls = 1, now_calls = 4\<rparr>,
         requests = [''https://fakestoreapi.com/products''],
         cache = [\<lparr>endpoint = ''https://fakestoreapi.com/products'',
                   response_data = scenario_A, fetched_at = ''tt''\<rparr>],
         entities = [shirt\<lparr>timestamp := ''ttt'',
                     metadata := [(''source'', JStr ''FakeStoreAPI''),
                                  (''processed_at'', JStr ''tttt'')]\<rparr>]\<rparr>)"
  by (simp add: fetch_and_store_data_def fetch_data_from_api_def fetch_try_def ev_A_def ev0_def
        w0_def c0_def API_ENDPOINTS_def raise_for_status_def response_json_def
        update_or_create_def scenario_A_def transform_data_def product_record_def bnd_def
        shirt_def get_external_id_def ext_id_exists_def create_def)

lemma run_failed_ev_A:
  "api_name \<in> {''users'', ''transactions''} \<Longrightarrow>
   map_of API_ENDPOINTS api_name = Some url \<Longrightarrow>
   fetch_and_store_data ev_A w api_name
     = (Inr (''Failed to fetch data from '' @ api_name), w\<lparr>requests := requests w @ [url]\<rparr>)"
  by (auto simp: fetch_and_store_data_def fetch_data_from_api_def fetch_try_def ev_A_def ev0_def
        API_ENDPOINTS_def)

lemma enrich_loop_result:
  assumes "inj (uuid4 ev)"
    and "fresh_from ev (uuid_calls (ctr w)) (entities w)"
  shows "\<exists>w' new. enrich_loop ev transactions n w = (Inr (n + length transactions), w')
           \<and> entities w' = entities w @ new
           \<and> length new = length transactions
           \<and> list_all (\<lambda>r. entity_type r = ''transaction'') new
           \<and> set (map entity_id new) \<subseteq> uuid4 ev ` {uuid_calls (ctr w)..}"
  using assms(2)
proof (induction transactions arbitrary: n w)
  case Nil
  then show ?case by simp
next
  case (Cons txn rest)
  let ?u = "uuid_calls (ctr w)"
  let ?item = "\<lparr>entity_id = uuid4 ev ?u,
                   entity_type = ''transaction'',
                   timestamp = t_timestamp txn,
                   data = enriched_data ev txn,
                   metadata = [(''source'', JStr ''Enriched Data''),
                               (''processed_at'', JStr (now_iso ev (now_calls (ctr w))))]\<rparr>"
  let ?c' = "\<lparr>uuid_calls = ?u + 1, now_calls = now_calls (ctr w) + 1\<rparr>"
  let ?w1 = "w\<lparr>ctr := ?c', entities := entities w @ [?item]\<rparr>"
  have notin: "uuid4 ev ?u \<notin> set (map entity_id (entities w))"
    using Cons.prems by (simp add: fresh_from_def)
  then have cr: "create ?item (entities w) = Inr (entities w @ [?item])"
    by (simp add: create_def)
  have step: "enrich_loop ev (txn # rest) n w = enrich_loop ev rest (n + 1) ?w1"
    using cr by (simp add: Let_def)
  have fresh1: "fresh_from ev (uuid_calls (ctr ?w1)) (entities ?w1)"
    unfolding fresh_from_def
  proof (intro allI impI)
    fix k assume k: "uuid_calls (ctr ?w1) \<le> k"
    then have "?u < k" by simp
    then have "uuid4 ev k \<noteq> uuid4 ev ?u" using assms(1) by (auto dest: injD)
    moreover have "uuid4 ev k \<notin> set (map entity_id (entities w))"
      using Cons.prems k by (simp add: fresh_from_def)
    ultimately show "uuid4 ev k \<notin> set (map entity_id (entities ?w1))" by simp
  qed
  from Cons.IH [OF fresh1, of "n + 1"] obtain w' new where
    r: "enrich_loop ev rest (n + 1) ?w1 = (Inr (n + 1 + length rest), w')"
    and e: "entities w' = entities ?w1 @ new"
    and l: "length new = length rest"
    and t: "list_all (\<lambda>r. entity_type r = ''transaction'') new"
    and i: "set (map entity_id new) \<subseteq> uuid4 ev ` {uuid_calls (ctr ?w1)..}"
    by blast
  have i': "set (map entity_id (?item # new)) \<subseteq> uuid4 ev ` {?u..}"
  proof -
    have "uuid4 ev ` {uuid_calls (ctr ?w1)..} \<subseteq> uuid4 ev ` {?u..}" by (rule image_mono) auto
    then show ?thesis using i by auto
  qed
  show ?case
  proof (intro exI conjI)
    show "enrich_loop ev (txn # rest) n w = (Inr (n + length (txn # rest)), w')"
      using step r by simp
    show "entities w' = entities w @ (?item # new)" using e by simp
    show "length (?item # new) = length (txn # rest)" using l by simp
    show "list_all (\<lambda>r. entity_type r = ''transaction'') (?item # new)" using t by simp
    show "set (map entity_id (?item # new)) \<subseteq> uuid4 ev ` {?u..}" by (rule i')
  qed
qed

lemma fresh_w_old: "fresh_from ev0 (uuid_calls (ctr w_old)) (entities w_old)"
  unfolding fresh_from_def
proof (intro allI impI)
  fix k assume "uuid_calls (ctr w_old) \<le> k"
  then have k: "1 \<le> k" by (simp add: w_old_def)
  have "length (uuid4 ev0 k) = Suc k" by (simp add: ev0_def)
  then have 1: "uuid4 ev0 k \<noteq> ''u''" using k by auto
  have "CHR ''o'' \<notin> set (uuid4 ev0 k)" by (simp add: ev0_def)
  then have 2: "uuid4 ev0 k \<noteq> ''old''" by auto
  show "uuid4 ev0 k \<notin> set (map entity_id (entities w_old))"
    using 1 2 by (simp add: w_old_def shirt_def old_enriched_def)
qed

lemma user_insights_no_transactions:
  "map total_spent (user_insights users []) = map (\<lambda>u. None) users"
  by (simp add: user_insights_def Sum_def)

lemma product_insights_no_transactions:
  "product_insights categories []
     = \<lparr>product_categories = map (\<lambda>c. (c_name c, 0)) categories,
        average_transaction_value = 0\<rparr>"
  by (simp add: product_insights_def Avg_def)

lemma user_insights_scenario_D:
  "map total_spent (user_insights [ann] [txn_10, txn_20]) = [Some 30]"
  by (simp add: user_insights_def Sum_def txn_10_def txn_20_def)

lemma fetch_null_body_raises:
  "fetch_data_from_api ev_null w0 ''products''
     = (Inl IntegrityError, w0\<lparr>requests := [''https://fakestoreapi.com/products'']\<rparr>)"
  by (simp add: ev_null_def ev0_def w0_def c0_def fetch_data_from_api_def fetch_try_def
        API_ENDPOINTS_def raise_for_status_def response_json_def update_or_create_def)



section \<open>The claims\<close>

subsection \<open>C1: storing twice is storing once\<close>

text \<open>
  C1. Whatever the table holds and whatever the records are, a second call of
  \<open>store_transformed_data\<close> with the same records ends as the first did and leaves the
  table as the first call left it: it persists nothing new. If no two rows of the table
  shared an external identity before, none do afterwards.
\<close>

theorem store_idempotent:
  assumes "distinct (identities rows)"
  shows "store_transformed_data items (snd (store_transformed_data items rows))
           = store_transformed_data items rows
         \<and> distinct (identities (snd (store_transformed_data items rows)))"
  using assms store_again [of items rows] store_distinct [of rows items] by simp

text \<open>
  Scenario C: on the empty table, storing the record of Scenario A twice leaves that one row.
\<close>

theorem store_idempotent_witness:
  "store_transformed_data [shirt] (snd (store_transformed_data [shirt] []))
     = (None, [shirt])
   \<and> distinct (identities (snd (store_transformed_data [shirt] [])))"
proof -
  have h: "distinct (identities [])" by (simp add: identities_def)
  show ?thesis using store_idempotent [OF h, of "[shirt]"]
    by (simp add: store_shirt del: store_transformed_data.simps)
qed

subsection \<open>C4: a missing field aborts the batch\<close>

text \<open>
  C4. For each of the three sources: if some item of the payload lacks one of the fields the
  loop body subscripts, \<open>transform_data\<close> raises, so that no record is returned for any
  item of the batch.
\<close>

theorem missing_field_aborts:
  assumes "recognized api_name"
    and "payload_items api_name raw_data = Inr items"
    and "item \<in> set items"
    and "missing_required api_name item"
  shows "\<exists>e. transform_data ev c api_name raw_data = Inl e"
proof -
  have "\<forall>c. \<exists>e. record_of ev api_name c item = Inl e"
    using record_of_required [OF assms(1) assms(4)] by blast
  then have "\<exists>e. transform_items (record_of ev api_name) c items = Inl e"
    using transform_items_fails [OF assms(3)] by blast
  then show ?thesis
    using assms(1,2) by (simp add: transform_data_items bnd_Inr)
qed

text \<open>
  A products payload whose second item has no title: the KeyError for \<open>title\<close> is all
  the caller gets, the well-formed first item included.
\<close>

theorem missing_field_aborts_witness:
  "recognized ''products''
   \<and> payload_items ''products'' missing_title = py_iter missing_title
   \<and> missing_required ''products'' (JObj [(''id'', JInt 2), (''price'', JInt 5),
                  (''category'', JStr ''clothing''), (''description'', JStr ''''),
                  (''image'', JStr ''http://x/z.png'')])
   \<and> transform_data ev0 c0 ''products'' missing_title = Inl (KeyError ''title'')"
proof -
  let ?bad = "JObj [(''id'', JInt 2), (''price'', JInt 5),
                  (''category'', JStr ''clothing''), (''description'', JStr ''''),
                  (''image'', JStr ''http://x/z.png'')]"
  have h1: "recognized ''products''" by (simp add: recognized_def)
  have h2: "payload_items ''products'' missing_title
              = Inr [JObj [(''id'', JInt 1), (''title'', JStr ''Shirt''), (''price'', JInt 9),
                  (''category'', JStr ''clothing''), (''description'', JStr ''''),
                  (''image'', JStr ''http://x/y.png'')], ?bad]"
    by (simp add: payload_items_def missing_title_def)
  have h3: "?bad \<in> set [JObj [(''id'', JInt 1), (''title'', JStr ''Shirt''), (''price'', JInt 9),
                  (''category'', JStr ''clothing''), (''description'', JStr ''''),
                  (''image'', JStr ''http://x/y.png'')], ?bad]" by simp
  have h4: "missing_required ''products'' ?bad"
    by (simp add: missing_required_def required_fields_def)
  have "transform_data ev0 c0 ''products'' missing_title = Inl (KeyError ''title'')"
    using missing_field_aborts [OF h1 h2 h3 h4, of ev0 c0]
    by (simp add: transform_data_def missing_title_def product_record_def bnd_def)
  then show ?thesis using h1 h4 by (simp add: payload_items_def)
qed

subsection \<open>C6: the amount of a transaction is derived from its id\<close>

text \<open>
  C6. Where \<open>transform_data\<close> returns for a transactions payload, it returns one record
  for each item, in order; the item has an \<open>id\<close>, \<open>float\<close> of it is defined, and the
  \<open>amount\<close> of the record is that float times 10.0. For the id 5 the amount is 50.0.
\<close>

theorem amount_derived:
  assumes "transform_data ev c ''transactions'' raw_data = Inr (rs, c')"
  shows "\<exists>items. py_iter raw_data = Inr items \<and>
           list_all2 (\<lambda>item r. \<exists>v f. py_getitem item ''id'' = Inr v \<and> py_float ev v = Inr f \<and>
              map_of (data r) ''amount'' = Some (JFloat (fmul f (Finite 10))) \<and>
              (v = JInt 5 \<longrightarrow> map_of (data r) ''amount'' = Some (JFloat (Finite 50)))) items rs"
proof -
  from assms obtain items where it: "py_iter raw_data = Inr items"
    and tr: "transform_items (transaction_record ev) c items = Inr (rs, c')"
    by (auto simp: transform_data_def bnd_Inr_iff)
  have "list_all2 (\<lambda>item r. \<exists>ci ci'. transaction_record ev ci item = Inr (r, ci')) items rs"
    using transform_items_all2 [OF tr] .
  then have "list_all2 (\<lambda>item r. \<exists>v f. py_getitem item ''id'' = Inr v \<and> py_float ev v = Inr f \<and>
              map_of (data r) ''amount'' = Some (JFloat (fmul f (Finite 10))) \<and>
              (v = JInt 5 \<longrightarrow> map_of (data r) ''amount'' = Some (JFloat (Finite 50)))) items rs"
    by (rule list_all2_mono) (use transaction_record_amount in blast)
  then show ?thesis using it by blast
qed

text \<open>
  Scenario B.
\<close>

theorem amount_derived_witness:
  "\<exists>r c'. transform_data ev0 c0 ''transactions'' scenario_B = Inr ([r], c')
     \<and> map_of (data r) ''amount'' = Some (JFloat (Finite 50))"
proof -
  let ?r = "\<lparr>entity_id = ''u'', entity_type = ''transaction'', timestamp = ''t'',
      data = [(''external_id'', JInt 5), (''status'', JStr ''placed''), (''eta'', JStr ''...''),
              (''user_name'', JStr ''A''), (''user_phone'', JStr ''1''),
              (''amount'', JFloat (Finite 50)), (''parcel_id'', JStr ''p1'')],
      metadata = [(''source'', JStr ''MockarooAPI''), (''processed_at'', JStr ''tt'')]\<rparr>"
  have h: "transform_data ev0 c0 ''transactions'' scenario_B
             = Inr ([?r], \<lparr>uuid_calls = 1, now_calls = 2\<rparr>)"
    by (simp add: transform_data_def scenario_B_def transaction_record_def simulated_amount_def
          bnd_def ev0_def c0_def float_of_int_5 round_double_50)
  show ?thesis using h amount_derived [OF h] by simp
qed

subsection \<open>C7: what store does with one record\<close>




subsection \<open>C9: the same payload normalized twice\<close>




subsection \<open>C10: a falsy identity is no identity\<close>

text \<open>
  C10. A record whose external identity is the integer 0, the empty string or null is
  skipped, whatever the table holds: nothing is persisted, and the loop goes on exactly as
  for the same record with the key \<open>external_id\<close> taken out.
\<close>

theorem store_falsy_identity:
  assumes "map_of (data item) ''external_id'' = Some x"
    and "x \<in> set [JInt 0, JStr [], JNull]"
  shows "store_transformed_data (item # items) rows = store_transformed_data items rows
         \<and> store_transformed_data [item] rows = (None, rows)
         \<and> map_of (data (without_identity item)) ''external_id'' = None
         \<and> store_transformed_data (without_identity item # items) rows
             = store_transformed_data (item # items) rows"
proof -
  have "\<not> truthy x" using assms(2) by auto
  then have "\<not> truthy (get_external_id item)" using assms(1) by (simp add: get_external_id_def)
  moreover have "map_of (data (without_identity item)) ''external_id'' = None"
    by (simp add: without_identity_def map_of_filter_out)
  moreover from this have "\<not> truthy (get_external_id (without_identity item))"
    by (simp add: get_external_id_def)
  ultimately show ?thesis by simp
qed

theorem store_falsy_identity_witness:
  "map_of (data zero_id_record) ''external_id'' = Some (JInt 0)
   \<and> JInt 0 \<in> set [JInt 0, JStr [], JNull]
   \<and> \<not> ext_id_exists [] (JInt 0)
   \<and> store_transformed_data [zero_id_record] [] = (None, [])
   \<and> store_transformed_data [without_identity zero_id_record] []
       = store_transformed_data [zero_id_record] []"
proof -
  have h1: "map_of (data zero_id_record) ''external_id'' = Some (JInt 0)"
    by (simp add: zero_id_record_def)
  have h2: "JInt 0 \<in> set [JInt 0, JStr [], JNull]" by simp
  show ?thesis using h1 h2 store_falsy_identity [OF h1 h2, of "[]" "[]"]
    by (simp add: ext_id_exists_def)
qed

subsection \<open>C5: fetch and the failures of the transport\<close>




subsection \<open>C8: the tasks\<close>

text \<open>
  C8, as the code has it. Where the fetch yields no data, \<open>fetch_and_store_data\<close>
  returns the failure message and the table of Unified Records is as before. Where it yields
  data that \<open>transform_data\<close> and \<open>store_transformed_data\<close> process without an
  exception, it returns the success message, with the table as the store left it. Where each
  of the three runs returns a message, be it of failure or of success, \<open>fetch_all_data\<close>
  returns the three messages under their source names, each run starting from the state the
  run before left.
\<close>

theorem run_outcomes:
  "(\<forall>raw_data w1. fetch_data_from_api ev w api_name = (Inr raw_data, w1) \<and> \<not> truthy raw_data
       \<longrightarrow> fetch_and_store_data ev w api_name = (Inr (''Failed to fetch data from '' @ api_name), w1)
           \<and> entities w1 = entities w)
   \<and> (\<forall>raw_data w1 transformed c' rows.
         fetch_data_from_api ev w api_name = (Inr raw_data, w1) \<and> truthy raw_data
         \<and> transform_data ev (ctr w1) api_name raw_data = Inr (transformed, c')
         \<and> store_transformed_data transformed (entities w1) = (None, rows)
       \<longrightarrow> fetch_and_store_data ev w api_name
             = (Inr (''Processed data from '' @ api_name), w1\<lparr>ctr := c', entities := rows\<rparr>))
   \<and> (\<forall>m1 w1 m2 w2 m3 w3.
         fetch_and_store_data ev w ''products'' = (Inr m1, w1)
         \<and> fetch_and_store_data ev w1 ''users'' = (Inr m2, w2)
         \<and> fetch_and_store_data ev w2 ''transactions'' = (Inr m3, w3)
       \<longrightarrow> fetch_all_data ev w
             = (Inr [(''products'', m1), (''users'', m2), (''transactions'', m3)], w3))"
proof (intro conjI allI impI)
  fix raw_data w1
  assume a: "fetch_data_from_api ev w api_name = (Inr raw_data, w1) \<and> \<not> truthy raw_data"
  then show "fetch_and_store_data ev w api_name = (Inr (''Failed to fetch data from '' @ api_name), w1)"
    by (simp add: fetch_and_store_data_def)
  show "entities w1 = entities w"
    using a fetch_entities [of ev w api_name] by simp
next
  fix raw_data w1 transformed c' rows
  assume "fetch_data_from_api ev w api_name = (Inr raw_data, w1) \<and> truthy raw_data
         \<and> transform_data ev (ctr w1) api_name raw_data = Inr (transformed, c')
         \<and> store_transformed_data transformed (entities w1) = (None, rows)"
  then show "fetch_and_store_data ev w api_name
             = (Inr (''Processed data from '' @ api_name), w1\<lparr>ctr := c', entities := rows\<rparr>)"
    by (simp add: fetch_and_store_data_def)
next
  fix m1 w1 m2 w2 m3 w3
  assume "fetch_and_store_data ev w ''products'' = (Inr m1, w1)
         \<and> fetch_and_store_data ev w1 ''users'' = (Inr m2, w2)
         \<and> fetch_and_store_data ev w2 ''transactions'' = (Inr m3, w3)"
  then show "fetch_all_data ev w
             = (Inr [(''products'', m1), (''users'', m2), (''transactions'', m3)], w3)"
    by (simp add: fetch_all_data_def)
qed

text \<open>
  The products source answers, the two others time out: products is processed, and the
  failures of users and transactions are reported beside it.
\<close>

theorem run_outcomes_witness:
  "fst (fetch_all_data ev_A w0)
     = Inr [(''products'', ''Processed data from products''),
            (''users'', ''Failed to fetch data from users''),
            (''transactions'', ''Failed to fetch data from transactions'')]
   \<and> requests (snd (fetch_all_data ev_A w0))
       = [''https://fakestoreapi.com/products'', ''https://randomuser.me/api/?results=20'',
          ''https://my.api.mockaroo.com/orders.json?key=e49e6840'']
   \<and> map (\<lambda>r. map_of (data r) ''external_id'') (entities (snd (fetch_all_data ev_A w0)))
       = [Some (JInt 1)]"
proof -
  let ?w1 = "\<lparr>ctr = \<lparr>uuid_calls = 1, now_calls = 4\<rparr>,
         requests = [''https://fakestoreapi.com/products''],
         cache = [\<lparr>endpoint = ''https://fakestoreapi.com/products'',
                   response_data = scenario_A, fetched_at = ''tt''\<rparr>],
         entities = [shirt\<lparr>timestamp := ''ttt'',
                     metadata := [(''source'', JStr ''FakeStoreAPI''),
                                  (''processed_at'', JStr ''tttt'')]\<rparr>]\<rparr>"
  let ?w2 = "?w1\<lparr>requests := requests ?w1 @ [''https://randomuser.me/api/?results=20'']\<rparr>"
  let ?w3 = "?w2\<lparr>requests := requests ?w2 @ [''https://my.api.mockaroo.com/orders.json?key=e49e6840'']\<rparr>"
  have h1: "fetch_and_store_data ev_A w0 ''products'' = (Inr ''Processed data from products'', ?w1)"
    by (rule run_products_ev_A)
  have h2: "fetch_and_store_data ev_A ?w1 ''users'' = (Inr ''Failed to fetch data from users'', ?w2)"
    using run_failed_ev_A [of "''users''" "''https://randomuser.me/api/?results=20''" ?w1]
    by (simp add: API_ENDPOINTS_def)
  have h3: "fetch_and_store_data ev_A ?w2 ''transactions''
              = (Inr ''Failed to fetch data from transactions'', ?w3)"
    using run_failed_ev_A [of "''transactions''"
        "''https://my.api.mockaroo.com/orders.json?key=e49e6840''" ?w2]
    by (simp add: API_ENDPOINTS_def)
  have "fetch_all_data ev_A w0
          = (Inr [(''products'', ''Processed data from products''),
                  (''users'', ''Failed to fetch data from users''),
                  (''transactions'', ''Failed to fetch data from transactions'')], ?w3)"
    using run_outcomes [of ev_A w0 "''products''"] h1 h2 h3 by blast
  then show ?thesis by (simp add: shirt_def)
qed

text \<open>
  The claim as stated fails where a source fails after its fetch: a products payload with
  an item without title makes \<open>transform_data\<close> raise, nothing catches the KeyError, and
  \<open>fetch_all_data\<close> ends with it. Only the products URL has been requested: users and
  transactions are not processed, and no mapping is returned.
\<close>

theorem run_all_aborts_counterexample:
  "fetch_and_store_data ev_bad w0 ''products''
     = (Inl (KeyError ''title''),
        \<lparr>ctr = \<lparr>uuid_calls = 0, now_calls = 2\<rparr>,
         requests = [''https://fakestoreapi.com/products''],
         cache = [\<lparr>endpoint = ''https://fakestoreapi.com/products'',
                   response_data = missing_title, fetched_at = ''tt''\<rparr>],
         entities = []\<rparr>)
   \<and> fetch_all_data ev_bad w0
     = (Inl (KeyError ''title''),
        \<lparr>ctr = \<lparr>uuid_calls = 0, now_calls = 2\<rparr>,
         requests = [''https://fakestoreapi.com/products''],
         cache = [\<lparr>endpoint = ''https://fakestoreapi.com/products'',
                   response_data = missing_title, fetched_at = ''tt''\<rparr>],
         entities = []\<rparr>)"
  by (simp add: fetch_all_data_def fetch_and_store_data_def fetch_data_from_api_def fetch_try_def
        ev_bad_def ev0_def w0_def c0_def API_ENDPOINTS_def raise_for_status_def response_json_def
        update_or_create_def missing_title_def transform_data_def product_record_def bnd_def)

subsection \<open>C2: enrichment replaces the rows of type transaction\<close>

text \<open>
  C2. Let the UUIDs not repeat, and those still to come not be the \<open>entity_id\<close> of a
  row of the table. Then \<open>enrich_transactions\<close> returns the number of rows of the
  \<open>Transaction\<close> table; it has inserted that many rows, after the rows it kept; the
  table then holds that many rows of type transaction; and no row of type transaction that
  was in the table before the call is in it afterwards.
\<close>

theorem enrich_replaces:
  assumes "inj (uuid4 ev)"
    and "fresh_from ev (uuid_calls (ctr w)) (entities w)"
  shows "\<exists>w' new. enrich_transactions ev w transactions = (Inr (length transactions), w')
           \<and> entities w' = filter (\<lambda>r. entity_type r \<noteq> ''transaction'') (entities w) @ new
           \<and> length new = length transactions
           \<and> length (filter (\<lambda>r. entity_type r = ''transaction'') (entities w'))
               = length transactions
           \<and> (\<forall>r \<in> set (entities w). entity_type r = ''transaction'' \<longrightarrow> r \<notin> set (entities w'))"
proof -
  let ?kept = "filter (\<lambda>r. entity_type r \<noteq> ''transaction'') (entities w)"
  let ?w0 = "w\<lparr>entities := ?kept\<rparr>"
  have "fresh_from ev (uuid_calls (ctr ?w0)) (entities ?w0)"
    using assms(2) by (auto simp: fresh_from_def)
  from enrich_loop_result [OF assms(1) this, of transactions 0] obtain w' new where
    r: "enrich_loop ev transactions 0 ?w0 = (Inr (length transactions), w')"
    and e: "entities w' = ?kept @ new"
    and l: "length new = length transactions"
    and t: "list_all (\<lambda>r. entity_type r = ''transaction'') new"
    and i: "set (map entity_id new) \<subseteq> uuid4 ev ` {uuid_calls (ctr w)..}"
    by auto
  have all_new: "filter (\<lambda>r. entity_type r = ''transaction'') new = new"
    using t by (simp add: list_all_iff)
  have none_kept: "filter (\<lambda>r. entity_type r = ''transaction'') ?kept = []"
    by (simp add: filter_empty_conv)
  have count: "length (filter (\<lambda>r. entity_type r = ''transaction'') (entities w')) = length transactions"
    using e l all_new none_kept by simp
  have gone: "\<forall>r \<in> set (entities w). entity_type r = ''transaction'' \<longrightarrow> r \<notin> set (entities w')"
  proof (intro ballI impI)
    fix r assume r_in: "r \<in> set (entities w)" and ty: "entity_type r = ''transaction''"
    have "r \<notin> set new"
    proof
      assume "r \<in> set new"
      then have "entity_id r \<in> uuid4 ev ` {uuid_calls (ctr w)..}" using i by auto
      then obtain k where k: "uuid_calls (ctr w) \<le> k" "entity_id r = uuid4 ev k" by auto
      have "entity_id r \<in> set (map entity_id (entities w))" using r_in by simp
      moreover have "uuid4 ev k \<notin> set (map entity_id (entities w))"
        using assms(2) k(1) unfolding fresh_from_def by blast
      ultimately show False using k(2) by simp
    qed
    then show "r \<notin> set (entities w')" using e ty by simp
  qed
  show ?thesis
    using r e l count gone by (auto simp: enrich_transactions_def)
qed

text \<open>
  A table with a product and an enriched row of an earlier run, and two transactions: the
  call returns 2, the product stays, the old row is gone, two new rows are there.
\<close>

theorem enrich_replaces_witness:
  "fst (enrich_transactions ev0 w_old [txn_10, txn_20]) = Inr 2
   \<and> map entity_id (entities (snd (enrich_transactions ev0 w_old [txn_10, txn_20])))
       = [''u'', ''uu'', ''uuu'']
   \<and> map entity_type (entities (snd (enrich_transactions ev0 w_old [txn_10, txn_20])))
       = [''product'', ''transaction'', ''transaction'']
   \<and> old_enriched \<notin> set (entities (snd (enrich_transactions ev0 w_old [txn_10, txn_20])))"
proof -
  obtain w' new where
    r: "enrich_transactions ev0 w_old [txn_10, txn_20] = (Inr (length [txn_10, txn_20]), w')"
    and g: "\<forall>r \<in> set (entities w_old). entity_type r = ''transaction'' \<longrightarrow> r \<notin> set (entities w')"
    using enrich_replaces [OF inj_uuid4_ev0 fresh_w_old, of "[txn_10, txn_20]"] by blast
  have "old_enriched \<in> set (entities w_old)" "entity_type old_enriched = ''transaction''"
    by (simp_all add: w_old_def old_enriched_def)
  then have gone: "old_enriched \<notin> set (entities w')" using g by blast
  have ids: "map entity_id (entities (snd (enrich_transactions ev0 w_old [txn_10, txn_20])))
       = [''u'', ''uu'', ''uuu'']"
    by (simp add: enrich_transactions_def w_old_def shirt_def old_enriched_def create_def ev0_def
          Let_def)
  have tys: "map entity_type (entities (snd (enrich_transactions ev0 w_old [txn_10, txn_20])))
       = [''product'', ''transaction'', ''transaction'']"
    by (simp add: enrich_transactions_def w_old_def shirt_def old_enriched_def create_def ev0_def
          Let_def)
  show ?thesis using r gone ids tys by simp
qed

subsection \<open>C3: the insights over no data\<close>

text \<open>
  C3. For a user without transactions \<open>UserInsightsView.get\<close> reports the
  \<open>total_spent\<close> that \<open>Sum\<close> gives over no row, which is None and not 0: the view
  has no counterpart of the \<open>or 0\<close> that \<open>ProductInsightsView.get\<close> applies to its
  average.
\<close>

theorem user_without_transactions_total_is_none:
  "user_insights [ann] []
     = [\<lparr>external_id = ''ext-ann'', name = ''Ann'', email = ''ann@example.org'',
         total_spent = None\<rparr>]"
  by (simp add: user_insights_def Sum_def ann_def)

end
